theory Spec2Isabelle
  imports Complex_Main "HOL-Library.AList"
begin

section \<open>Python values\<close>

text \<open>
  The client of \<^verbatim>\<open>raiblocks/client.py\<close> receives whatever \<^verbatim>\<open>resp.json()\<close> decodes:
  \<^verbatim>\<open>None\<close>, a bool, an int (unbounded), a float, a str, a list or a dict with str keys.
  A dict is an association list in insertion order; a decoded dict has distinct keys.
  A finite float is represented by the rational it denotes. Strings are \<^typ>\<open>string\<close>,
  so their characters range over the code points below 256.
\<close>

datatype pyfloat = Finite rat | PosInf | NegInf | NaN

datatype pyval =
    PNone
  | PBool bool
  | PInt int
  | PFloat pyfloat
  | PStr string
  | PList "pyval list"
  | PDict "(string \<times> pyval) list"

datatype pyerr =
    TypeError
  | ValueError
  | KeyError
  | AttributeError
  | OverflowError
  | TransportError string

type_synonym 'a result = "pyerr + 'a"

subsection \<open>Truthiness, \<^verbatim>\<open>and\<close>, \<^verbatim>\<open>or\<close>\<close>

fun py_truthy :: "pyval \<Rightarrow> bool" where
  "py_truthy PNone = False"
| "py_truthy (PBool b) = b"
| "py_truthy (PInt i) = (i \<noteq> 0)"
| "py_truthy (PFloat (Finite q)) = (q \<noteq> 0)"
| "py_truthy (PFloat f) = True"
| "py_truthy (PStr s) = (s \<noteq> [])"
| "py_truthy (PList xs) = (xs \<noteq> [])"
| "py_truthy (PDict d) = (d \<noteq> [])"

definition py_and :: "pyval \<Rightarrow> pyval \<Rightarrow> pyval" where
  "py_and a b = (if py_truthy a then b else a)"

definition py_or :: "pyval \<Rightarrow> pyval \<Rightarrow> pyval" where
  "py_or a b = (if py_truthy a then a else b)"

subsection \<open>The builtin \<^verbatim>\<open>int\<close>\<close>

text \<open>
  \<^verbatim>\<open>int(s)\<close> on a str: surrounding whitespace is dropped, one sign is allowed, then at
  least one decimal digit; a single underscore may stand between two digits. Anything
  else is a \<^verbatim>\<open>ValueError\<close>. Among the code points below 256 \<^verbatim>\<open>int\<close> skips as whitespace
  9 to 13, 32, 133 and 160. No limit on the number of digits is modelled.
\<close>

definition py_isspace :: "char \<Rightarrow> bool" where
  "py_isspace c = (let n = (of_char c :: nat) in
     (9 \<le> n \<and> n \<le> 13) \<or> n = 32 \<or> n = 133 \<or> n = 160)"

definition py_strip :: "string \<Rightarrow> string" where
  "py_strip s = rev (dropWhile py_isspace (rev (dropWhile py_isspace s)))"

definition is_digit :: "char \<Rightarrow> bool" where
  "is_digit c = (let n = (of_char c :: nat) in 48 \<le> n \<and> n \<le> 57)"

definition digit_val :: "char \<Rightarrow> nat" where
  "digit_val c = of_char c - 48"

fun parse_digits :: "nat \<Rightarrow> string \<Rightarrow> nat option" where
  "parse_digits acc [] = Some acc"
| "parse_digits acc [c] = (if is_digit c then Some (10 * acc + digit_val c) else None)"
| "parse_digits acc (c # d # cs) =
     (if is_digit c then parse_digits (10 * acc + digit_val c) (d # cs)
      else if c = CHR ''_'' \<and> is_digit d then parse_digits (10 * acc + digit_val d) cs
      else None)"

definition parse_unsigned :: "string \<Rightarrow> nat option" where
  "parse_unsigned s =
     (case s of [] \<Rightarrow> None
      | c # cs \<Rightarrow> if is_digit c then parse_digits (digit_val c) cs else None)"

definition int_of_str :: "string \<Rightarrow> int option" where
  "int_of_str s =
     (case py_strip s of
        [] \<Rightarrow> None
      | c # cs \<Rightarrow>
          if c = CHR ''+'' then map_option int (parse_unsigned cs)
          else if c = CHR ''-'' then map_option (\<lambda>n. - int n) (parse_unsigned cs)
          else map_option int (parse_unsigned (c # cs)))"

fun py_int :: "pyval \<Rightarrow> int result" where
  "py_int PNone = Inl TypeError"
| "py_int (PBool b) = Inr (if b then 1 else 0)"
| "py_int (PInt i) = Inr i"
| "py_int (PFloat (Finite q)) = Inr (if 0 \<le> q then \<lfloor>q\<rfloor> else \<lceil>q\<rceil>)"
| "py_int (PFloat NaN) = Inl ValueError"
| "py_int (PFloat f) = Inl OverflowError"
| "py_int (PStr s) = (case int_of_str s of None \<Rightarrow> Inl ValueError | Some n \<Rightarrow> Inr n)"
| "py_int (PList xs) = Inl TypeError"
| "py_int (PDict d) = Inl TypeError"

subsection \<open>The builtin \<^verbatim>\<open>str\<close> on an int\<close>

definition digit_char :: "nat \<Rightarrow> char" where
  "digit_char n = char_of (48 + n)"

fun nat_digits :: "nat \<Rightarrow> string" where
  "nat_digits n = (if n < 10 then [digit_char n] else nat_digits (n div 10) @ [digit_char (n mod 10)])"

declare nat_digits.simps [simp del]

definition py_str_int :: "int \<Rightarrow> string" where
  "py_str_int i = (if i < 0 then CHR ''-'' # nat_digits (nat (- i)) else nat_digits (nat i))"

subsection \<open>Subscription, membership, dict methods, iteration\<close>

text \<open>Each operation raises what Python raises on a receiver of the wrong type.\<close>

fun is_substr :: "string \<Rightarrow> string \<Rightarrow> bool" where
  "is_substr xs [] = (xs = [])"
| "is_substr xs (y # ys) = (take (length xs) (y # ys) = xs \<or> is_substr xs ys)"

text \<open>\<^verbatim>\<open>key in container\<close>, for a str key.\<close>

fun py_contains :: "string \<Rightarrow> pyval \<Rightarrow> bool result" where
  "py_contains k (PDict d) = Inr (k \<in> set (map fst d))"
| "py_contains k (PList xs) = Inr (PStr k \<in> set xs)"
| "py_contains k (PStr s) = Inr (is_substr k s)"
| "py_contains k v = Inl TypeError"

text \<open>\<^verbatim>\<open>container[key]\<close>, for a str key.\<close>

fun py_getitem :: "pyval \<Rightarrow> string \<Rightarrow> pyval result" where
  "py_getitem (PDict d) k = (case map_of d k of None \<Rightarrow> Inl KeyError | Some v \<Rightarrow> Inr v)"
| "py_getitem v k = Inl TypeError"

text \<open>\<^verbatim>\<open>container[key] = value\<close>, for a str key; the updated container is returned.\<close>

fun py_setitem :: "pyval \<Rightarrow> string \<Rightarrow> pyval \<Rightarrow> pyval result" where
  "py_setitem (PDict d) k x = Inr (PDict (AList.update k x d))"
| "py_setitem v k x = Inl TypeError"

text \<open>\<^verbatim>\<open>resp.get(key)\<close> and \<^verbatim>\<open>resp.items()\<close>: only a dict has these methods.\<close>

fun py_get :: "pyval \<Rightarrow> string \<Rightarrow> pyval result" where
  "py_get (PDict d) k = (case map_of d k of None \<Rightarrow> Inr PNone | Some v \<Rightarrow> Inr v)"
| "py_get v k = Inl AttributeError"

fun py_items :: "pyval \<Rightarrow> (string \<times> pyval) list result" where
  "py_items (PDict d) = Inr d"
| "py_items v = Inl AttributeError"

text \<open>The elements a \<^verbatim>\<open>for\<close> loop visits: list items, dict keys, the characters of a str.\<close>

fun py_iter :: "pyval \<Rightarrow> pyval list result" where
  "py_iter (PList xs) = Inr xs"
| "py_iter (PDict d) = Inr (map (\<lambda>kv. PStr (fst kv)) d)"
| "py_iter (PStr s) = Inr (map (\<lambda>c. PStr [c]) s)"
| "py_iter v = Inl TypeError"

section \<open>Requests\<close>

text \<open>
  Modelled from the spec: the module \<^verbatim>\<open>raiblocks.models\<close> that declares \<^verbatim>\<open>Account\<close>,
  \<^verbatim>\<open>Wallet\<close> and \<^verbatim>\<open>PublicKey\<close> is not among the sources. The spec describes them as
  distinct tags over a raw string that perform no validation, so each is a constructor
  holding the string.
\<close>

datatype model = Account string | Wallet string | PublicKey string

text \<open>A payload field holds one of these identifiers or an ordinary Python value.\<close>

datatype pval = Model model | Val pyval

type_synonym payload = "(string \<times> pval) list"

definition preprocess_account :: "string \<Rightarrow> pval" where
  "preprocess_account account_string = Model (Account account_string)"

definition preprocess_wallet :: "string \<Rightarrow> pval" where
  "preprocess_wallet wallet_string = Model (Wallet wallet_string)"


definition preprocess_strbool :: "pyval \<Rightarrow> pyval" where
  "preprocess_strbool v = py_or (py_and v (PStr ''true'')) (PStr ''false'')"

definition bind_result :: "'a result \<Rightarrow> ('a \<Rightarrow> 'b result) \<Rightarrow> 'b result" where
  "bind_result r f = (case r of Inl e \<Rightarrow> Inl e | Inr x \<Rightarrow> f x)"

definition preprocess_int :: "pyval \<Rightarrow> pyval result" where
  "preprocess_int integer_string =
     bind_result (py_int integer_string) (\<lambda>n. Inr (PStr (py_str_int n)))"

section \<open>The client\<close>

text \<open>
  The HTTP session is the simulated node: \<open>respond\<close> maps the URL and the JSON body of a
  POST to the decoded response, or to the exception that \<^verbatim>\<open>post\<close> or \<^verbatim>\<open>resp.json()\<close>
  raises; \<open>posted\<close> records every request made, oldest first.
\<close>

record http_session =
  respond :: "string \<Rightarrow> payload \<Rightarrow> pyval result"
  posted :: "(string \<times> payload) list"

record client =
  host :: string
  session :: http_session

definition post :: "http_session \<Rightarrow> string \<Rightarrow> payload \<Rightarrow> pyval result \<times> http_session" where
  "post s url body = (respond s url body, s\<lparr>posted := posted s @ [(url, body)]\<rparr>)"

text \<open>\<^verbatim>\<open>Client.__init__\<close>, for a caller that supplies the session.\<close>

definition init :: "string option \<Rightarrow> http_session \<Rightarrow> client" where
  "init host_arg s =
     \<lparr>host = (case host_arg of None \<Rightarrow> ''http://localhost:7076''
              | Some h \<Rightarrow> if h = [] then ''http://localhost:7076'' else h),
      session = s\<rparr>"

text \<open>
  \<^verbatim>\<open>Client.call\<close>. \<^verbatim>\<open>params or {}\<close> keeps the caller's dict unless it is \<^verbatim>\<open>None\<close> or empty,
  and the assignment of \<^verbatim>\<open>action\<close> then happens in place. The result is what the call
  returns or raises, the caller's \<^verbatim>\<open>params\<close> object afterwards, and the client.
\<close>

definition call :: "client \<Rightarrow> string \<Rightarrow> payload option \<Rightarrow> pyval result \<times> payload option \<times> client" where
  "call c action params =
     (let kept = (case params of None \<Rightarrow> False | Some d \<Rightarrow> d \<noteq> []);
          body = AList.update ''action'' (Val (PStr action))
                   (case params of None \<Rightarrow> [] | Some d \<Rightarrow> d);
          (resp, s') = post (session c) (host c) body
      in (resp, if kept then Some body else params, c\<lparr>session := s'\<rparr>))"

subsection \<open>\<^verbatim>\<open>account_balance\<close>\<close>

text \<open>The dict comprehension \<^verbatim>\<open>{k: int(v) for k, v in resp.items()}\<close>.\<close>

fun int_values :: "(string \<times> pyval) list \<Rightarrow> (string \<times> pyval) list \<Rightarrow> (string \<times> pyval) list result" where
  "int_values acc [] = Inr acc"
| "int_values acc ((k, v) # kvs) =
     (case py_int v of Inl e \<Rightarrow> Inl e
      | Inr n \<Rightarrow> int_values (AList.update k (PInt n) acc) kvs)"

definition account_balance :: "client \<Rightarrow> string \<Rightarrow> pyval result \<times> client" where
  "account_balance c account =
     (let account' = preprocess_account account;
          payload = [(''account'', account')];
          (resp, _, c') = call c ''account_balance'' (Some payload)
      in (bind_result resp (\<lambda>resp.
          bind_result (py_items resp) (\<lambda>items.
          bind_result (int_values [] items) (\<lambda>d. Inr (PDict d)))), c'))"

subsection \<open>\<^verbatim>\<open>account_block_count\<close>, \<^verbatim>\<open>account_create\<close>, \<^verbatim>\<open>account_get\<close>\<close>




subsection \<open>\<^verbatim>\<open>account_info\<close>\<close>

text \<open>The payload as built before the call (lines 132 to 143).\<close>

definition account_info_payload :: "string \<Rightarrow> pyval \<Rightarrow> pyval \<Rightarrow> pyval \<Rightarrow> payload" where
  "account_info_payload account representative weight pending =
     (let account' = preprocess_account account;
          payload = [(''account'', account')];
          payload = (if py_truthy representative
                     then AList.update ''representative'' (Val (preprocess_strbool representative)) payload
                     else payload);
          payload = (if py_truthy weight
                     then AList.update ''weight'' (Val (preprocess_strbool weight)) payload
                     else payload);
          payload = (if py_truthy pending
                     then AList.update ''pending'' (Val (preprocess_strbool pending)) payload
                     else payload)
      in payload)"

text \<open>The loop \<^verbatim>\<open>for key in (...): if key in resp: resp[key] = int(resp[key])\<close>.\<close>

fun coerce_present :: "string list \<Rightarrow> pyval \<Rightarrow> pyval result" where
  "coerce_present [] resp = Inr resp"
| "coerce_present (key # keys) resp =
     bind_result (py_contains key resp) (\<lambda>present.
       if present then
         bind_result (py_getitem resp key) (\<lambda>v.
         bind_result (py_int v) (\<lambda>n.
         bind_result (py_setitem resp key (PInt n)) (\<lambda>resp'. coerce_present keys resp')))
       else coerce_present keys resp)"

definition info_int_keys :: "string list" where
  "info_int_keys = [''modified_timestamp'', ''block_count'', ''balance'', ''pending'', ''weight'']"

definition account_info :: "client \<Rightarrow> string \<Rightarrow> pyval \<Rightarrow> pyval \<Rightarrow> pyval \<Rightarrow> pyval result \<times> client" where
  "account_info c account representative weight pending =
     (let payload = account_info_payload account representative weight pending;
          (resp, _, c') = call c ''account_info'' (Some payload)
      in (bind_result resp (\<lambda>resp. coerce_present info_int_keys resp), c'))"

subsection \<open>\<^verbatim>\<open>account_history\<close> and \<^verbatim>\<open>account_list\<close>\<close>

text \<open>The loop \<^verbatim>\<open>for entry in history: entry['amount'] = int(entry['amount'])\<close>.\<close>

fun int_amounts :: "pyval list \<Rightarrow> pyval list result" where
  "int_amounts [] = Inr []"
| "int_amounts (entry # rest) =
     bind_result (py_getitem entry ''amount'') (\<lambda>a.
     bind_result (py_int a) (\<lambda>n.
     bind_result (py_setitem entry ''amount'' (PInt n)) (\<lambda>entry'.
     bind_result (int_amounts rest) (\<lambda>rest'. Inr (entry' # rest')))))"

text \<open>
  A failing \<^verbatim>\<open>preprocess_int(count)\<close> raises before anything is sent. The entries are
  updated in place, so a list is returned with its updated entries.
\<close>

definition account_history :: "client \<Rightarrow> string \<Rightarrow> pyval \<Rightarrow> pyval result \<times> client" where
  "account_history c account count =
     (let account' = preprocess_account account in
      case preprocess_int count of
        Inl e \<Rightarrow> (Inl e, c)
      | Inr count' \<Rightarrow>
         (let payload = [(''account'', account'), (''count'', Val count')];
              (resp, _, c') = call c ''account_history'' (Some payload)
          in (bind_result resp (\<lambda>resp.
              bind_result (py_get resp ''history'') (\<lambda>h.
                let history = py_or h (PList []) in
                bind_result (py_iter history) (\<lambda>entries.
                bind_result (int_amounts entries) (\<lambda>entries'.
                  Inr (case history of PList _ \<Rightarrow> PList entries' | _ \<Rightarrow> history))))), c')))"

definition account_list :: "client \<Rightarrow> string \<Rightarrow> pyval result \<times> client" where
  "account_list c wallet =
     (let wallet' = preprocess_wallet wallet;
          payload = [(''wallet'', wallet')];
          (resp, _, c') = call c ''account_list'' (Some payload)
      in (bind_result resp (\<lambda>resp.
          bind_result (py_get resp ''accounts'') (\<lambda>a. Inr (py_or a (PList [])))), c'))"

subsection \<open>\<^verbatim>\<open>version\<close> and \<^verbatim>\<open>stop\<close>\<close>

text \<open>The loop \<^verbatim>\<open>for key in (...): resp[key] = int(resp[key])\<close>.\<close>

fun coerce_required :: "string list \<Rightarrow> pyval \<Rightarrow> pyval result" where
  "coerce_required [] resp = Inr resp"
| "coerce_required (key # keys) resp =
     bind_result (py_getitem resp key) (\<lambda>v.
     bind_result (py_int v) (\<lambda>n.
     bind_result (py_setitem resp key (PInt n)) (\<lambda>resp'. coerce_required keys resp')))"

definition version :: "client \<Rightarrow> pyval result \<times> client" where
  "version c =
     (let (resp, _, c') = call c ''version'' None
      in (bind_result resp (\<lambda>resp. coerce_required [''rpc_version'', ''store_version''] resp), c'))"

definition stop :: "client \<Rightarrow> bool result \<times> client" where
  "stop c =
     (let (resp, _, c') = call c ''stop'' None
      in (bind_result resp (\<lambda>resp. py_contains ''success'' resp), c'))"

subsection \<open>Simulated nodes\<close>

text \<open>A session that answers every request with the same decoded response or exception.\<close>

definition node_of :: "pyval result \<Rightarrow> http_session" where
  "node_of r = \<lparr>respond = (\<lambda>url body. r), posted = []\<rparr>"

definition client_of :: "pyval result \<Rightarrow> client" where
  "client_of r = init None (node_of r)"

section \<open>Properties\<close>

subsection \<open>Decimal text\<close>

text \<open>
  \<^verbatim>\<open>int\<close> reads back what \<^verbatim>\<open>str\<close> writes: the text of an integer is a numeric string
  denoting that integer.
\<close>

lemma digit_char_props:
  assumes "d < 10"
  shows "is_digit (digit_char d)" "digit_val (digit_char d) = d"
proof -
  have "(48 + d) mod 256 = 48 + d" using assms by simp
  then have "(of_char (digit_char d) :: nat) = 48 + d"
    by (simp add: digit_char_def)
  with assms show "is_digit (digit_char d)" "digit_val (digit_char d) = d"
    by (simp_all add: is_digit_def digit_val_def)
qed

lemma is_digit_not_space: "is_digit c \<Longrightarrow> \<not> py_isspace c"
  by (auto simp add: is_digit_def py_isspace_def Let_def)

lemma is_digit_not_sign: "is_digit c \<Longrightarrow> c \<noteq> CHR ''+'' \<and> c \<noteq> CHR ''-''"
  by (auto simp add: is_digit_def)

lemma parse_digits_all_digits:
  "\<forall>c \<in> set s. is_digit c \<Longrightarrow>
   parse_digits acc s = Some (foldl (\<lambda>a c. 10 * a + digit_val c) acc s)"
proof (induction acc s rule: parse_digits.induct)
  case (1 acc)
  show ?case by simp
next
  case (2 acc c)
  then show ?case by simp
next
  case (3 acc c d cs)
  from 3(3) have c: "is_digit c" and rest: "\<forall>x \<in> set (d # cs). is_digit x" by simp_all
  from 3(1) [OF c rest] c show ?case by simp
qed

lemma nat_digits_small: "n < 10 \<Longrightarrow> nat_digits n = [digit_char n]"
  by (subst nat_digits.simps) simp

lemma nat_digits_large:
  "\<not> n < 10 \<Longrightarrow> nat_digits n = nat_digits (n div 10) @ [digit_char (n mod 10)]"
  by (subst nat_digits.simps) simp

lemma nat_digits_all_digits: "\<forall>c \<in> set (nat_digits n). is_digit c"
proof (induction n rule: nat_digits.induct)
  case (1 n)
  show ?case
  proof (cases "n < 10")
    case True
    then show ?thesis by (simp only: nat_digits_small) (simp add: digit_char_props)
  next
    case False
    with 1 have "\<forall>c \<in> set (nat_digits (n div 10)). is_digit c" by blast
    moreover have "is_digit (digit_char (n mod 10))" by (simp add: digit_char_props)
    ultimately show ?thesis by (simp only: nat_digits_large [OF False]) auto
  qed
qed

lemma nat_digits_nonempty: "nat_digits n \<noteq> []"
  by (subst nat_digits.simps) simp

lemma nat_digits_value: "foldl (\<lambda>a c. 10 * a + digit_val c) 0 (nat_digits n) = n"
proof (induction n rule: nat_digits.induct)
  case (1 n)
  show ?case
  proof (cases "n < 10")
    case True
    then show ?thesis by (simp only: nat_digits_small) (simp add: digit_char_props)
  next
    case False
    with 1 have "foldl (\<lambda>a c. 10 * a + digit_val c) 0 (nat_digits (n div 10)) = n div 10"
      by blast
    then show ?thesis
      by (simp only: nat_digits_large [OF False]) (simp add: digit_char_props)
  qed
qed

lemma parse_unsigned_nat_digits: "parse_unsigned (nat_digits n) = Some n"
proof -
  obtain c cs where ccs: "nat_digits n = c # cs"
    using nat_digits_nonempty [of n] by (cases "nat_digits n") auto
  with nat_digits_all_digits [of n] have dig: "is_digit c" "\<forall>c \<in> set cs. is_digit c" by auto
  have "foldl (\<lambda>a c. 10 * a + digit_val c) (digit_val c) cs = n"
    using nat_digits_value [of n] ccs by simp
  with dig ccs show ?thesis
    by (simp add: parse_unsigned_def parse_digits_all_digits)
qed

lemma nat_digits_no_space:
  "\<not> py_isspace (hd (nat_digits n))" "\<not> py_isspace (last (nat_digits n))"
proof -
  have "hd (nat_digits n) \<in> set (nat_digits n)" "last (nat_digits n) \<in> set (nat_digits n)"
    using nat_digits_nonempty by simp_all
  with nat_digits_all_digits
  have "is_digit (hd (nat_digits n))" "is_digit (last (nat_digits n))" by blast+
  then show "\<not> py_isspace (hd (nat_digits n))" "\<not> py_isspace (last (nat_digits n))"
    by (simp_all add: is_digit_not_space)
qed

lemma py_strip_id:
  assumes "s \<noteq> []" "\<not> py_isspace (hd s)" "\<not> py_isspace (last s)"
  shows "py_strip s = s"
proof -
  from assms have "dropWhile py_isspace s = s" by (cases s) auto
  moreover from assms have "dropWhile py_isspace (rev s) = rev s"
    by (cases "rev s") (auto simp add: hd_rev)
  ultimately show ?thesis by (simp add: py_strip_def)
qed

lemma int_of_str_py_str_int: "int_of_str (py_str_int i) = Some i"
proof (cases "i < 0")
  case True
  let ?s = "CHR ''-'' # nat_digits (nat (- i))"
  have "\<not> py_isspace CHR ''-''" by (simp add: py_isspace_def)
  then have "py_strip ?s = ?s"
    using nat_digits_no_space [of "nat (- i)"] nat_digits_nonempty [of "nat (- i)"]
    by (intro py_strip_id) auto
  with True show ?thesis
    by (simp add: int_of_str_def py_str_int_def parse_unsigned_nat_digits)
next
  case False
  let ?s = "nat_digits (nat i)"
  obtain c cs where ccs: "?s = c # cs"
    using nat_digits_nonempty [of "nat i"] by (cases ?s) auto
  with nat_digits_all_digits [of "nat i"] have "is_digit c" by auto
  then have sign: "c \<noteq> CHR ''+''" "c \<noteq> CHR ''-''"
    using is_digit_not_sign by blast+
  have "py_strip ?s = ?s"
    using nat_digits_no_space [of "nat i"] nat_digits_nonempty [of "nat i"]
    by (intro py_strip_id) auto
  with False ccs sign parse_unsigned_nat_digits [of "nat i"] show ?thesis
    by (simp add: int_of_str_def py_str_int_def)
qed

text \<open>Unfolding these evaluates \<open>int_of_str\<close> on a literal.\<close>

lemmas int_of_str_eval =
  int_of_str_def py_strip_def py_isspace_def parse_unsigned_def is_digit_def digit_val_def

subsection \<open>What a call sends and returns\<close>

lemma call_result:
  "fst (call c action params) =
   respond (session c) (host c)
     (AList.update ''action'' (Val (PStr action)) (case params of None \<Rightarrow> [] | Some d \<Rightarrow> d))"
  by (simp add: call_def post_def Let_def)

lemma call_posted:
  "posted (session (snd (snd (call c action params)))) =
   posted (session c) @ [(host c,
     AList.update ''action'' (Val (PStr action)) (case params of None \<Rightarrow> [] | Some d \<Rightarrow> d))]"
  by (simp add: call_def post_def Let_def)

lemma call_client_of: "fst (call (client_of r) action params) = r"
  by (simp add: call_result client_of_def node_of_def init_def)

lemma client_of_simps:
  "host (client_of r) = ''http://localhost:7076''"
  "posted (session (client_of r)) = []"
  by (simp_all add: client_of_def node_of_def init_def)

lemma stop_fst:
  "fst (stop c) = bind_result (fst (call c ''stop'' None)) (py_contains ''success'')"
  by (simp add: stop_def split_beta)

lemma account_list_fst:
  "fst (account_list c w) =
   bind_result (fst (call c ''account_list'' (Some [(''wallet'', preprocess_wallet w)])))
     (\<lambda>resp. bind_result (py_get resp ''accounts'') (\<lambda>a. Inr (py_or a (PList []))))"
  by (simp add: account_list_def split_beta Let_def)

lemma preprocess_int_ok:
  "py_int count = Inr n \<Longrightarrow> preprocess_int count = Inr (PStr (py_str_int n))"
  by (simp add: preprocess_int_def bind_result_def)

lemma account_history_fst:
  "preprocess_int count = Inr count' \<Longrightarrow>
   fst (account_history c a count) =
   bind_result (fst (call c ''account_history''
                      (Some [(''account'', preprocess_account a), (''count'', Val count')])))
     (\<lambda>resp. bind_result (py_get resp ''history'') (\<lambda>h.
        let history = py_or h (PList []) in
        bind_result (py_iter history) (\<lambda>entries.
        bind_result (int_amounts entries) (\<lambda>entries'.
          Inr (case history of PList _ \<Rightarrow> PList entries' | _ \<Rightarrow> history)))))"
  by (simp add: account_history_def split_beta Let_def)

subsection \<open>The generic call\<close>

text \<open>
  C4. The body that \<open>call\<close> posts is the caller's \<open>params\<close> (nothing, when \<open>params\<close> is
  \<^verbatim>\<open>None\<close>) with \<open>action\<close> stored under the key \<^verbatim>\<open>action\<close>: that key holds the action
  whether or not it was there before, every other key holds its original value, and the
  keys keep their order, \<^verbatim>\<open>action\<close> being appended when it is new. The caller's own dict
  ends up as that body too, unless it was empty or \<^verbatim>\<open>None\<close>, in which case it is untouched.
\<close>

theorem call_injects_action:
  "let d = (case params of None \<Rightarrow> [] | Some d \<Rightarrow> d);
       body = AList.update ''action'' (Val (PStr action)) d;
       out = call c action params
   in posted (session (snd (snd out))) = posted (session c) @ [(host c, body)]
    \<and> map_of body ''action'' = Some (Val (PStr action))
    \<and> (\<forall>k. k \<noteq> ''action'' \<longrightarrow> map_of body k = map_of d k)
    \<and> map fst body = (if ''action'' \<in> set (map fst d) then map fst d else map fst d @ [''action''])
    \<and> fst (snd out) = (if d = [] then params else Some body)"
  by (auto simp add: call_def post_def Let_def update_conv' AList.update_keys split: option.splits)

theorem call_injects_action_witness:
  "posted (session (snd (snd (call (client_of (Inr PNone)) ''send''
      (Some [(''action'', Val (PStr ''old'')), (''wallet'', Val (PStr ''w''))]))))) =
     [(''http://localhost:7076'',
       [(''action'', Val (PStr ''send'')), (''wallet'', Val (PStr ''w''))])]
   \<and> fst (snd (call (client_of (Inr PNone)) ''send'' (Some []))) = Some []"
  using call_injects_action [of "Some [(''action'', Val (PStr ''old'')), (''wallet'', Val (PStr ''w''))]"
          "''send''" "client_of (Inr PNone)"]
        call_injects_action [of "Some []" "''send''" "client_of (Inr PNone)"]
  by (simp add: Let_def client_of_simps)

subsection \<open>\<^verbatim>\<open>stop\<close>\<close>

text \<open>
  C7. When the node answers \<open>stop\<close> with a mapping, the result is \<open>True\<close> exactly when
  the mapping has the key \<^verbatim>\<open>success\<close>, whatever value is stored under it, and \<open>False\<close>
  when the key is absent.
\<close>

theorem stop_iff_success:
  "fst (call c ''stop'' None) = Inr (PDict d) \<Longrightarrow>
   fst (stop c) = Inr (''success'' \<in> set (map fst d))"
  by (simp add: stop_fst bind_result_def)

theorem stop_iff_success_witness:
  "fst (stop (client_of (Inr (PDict [(''success'', PStr [])])))) = Inr True \<and>
   fst (stop (client_of (Inr (PDict [(''error'', PStr ''no'')])))) = Inr False"
  using stop_iff_success [of "client_of (Inr (PDict [(''success'', PStr [])]))" "[(''success'', PStr [])]"]
        stop_iff_success [of "client_of (Inr (PDict [(''error'', PStr ''no'')]))" "[(''error'', PStr ''no'')]"]
  by (simp add: call_client_of)

subsection \<open>Missing and falsy list fields\<close>

text \<open>
  C3. When the response mapping has no \<^verbatim>\<open>history\<close> key, \<open>account_history\<close> (called with
  a count that \<^verbatim>\<open>int\<close> accepts) returns the empty list; when it has no \<^verbatim>\<open>accounts\<close> key,
  \<open>account_list\<close> returns the empty list. Neither returns \<^verbatim>\<open>None\<close> or raises.
\<close>

theorem missing_field_gives_empty_list:
  "(py_int count = Inr n \<longrightarrow>
    fst (call c ''account_history''
          (Some [(''account'', preprocess_account a), (''count'', Val (PStr (py_str_int n)))]))
      = Inr (PDict d) \<longrightarrow>
    ''history'' \<notin> set (map fst d) \<longrightarrow>
    fst (account_history c a count) = Inr (PList []))
 \<and> (fst (call c ''account_list'' (Some [(''wallet'', preprocess_wallet w)])) = Inr (PDict d') \<longrightarrow>
    ''accounts'' \<notin> set (map fst d') \<longrightarrow>
    fst (account_list c w) = Inr (PList []))"
  by (auto simp add: account_list_fst account_history_fst preprocess_int_ok bind_result_def
        py_or_def map_of_eq_None_iff [THEN iffD2])

theorem missing_field_gives_empty_list_witness:
  "fst (account_history (client_of (Inr (PDict [(''error'', PStr ''Bad account number'')])))
         ''xrb_1'' (PInt 1)) = Inr (PList [])
 \<and> fst (account_list (client_of (Inr (PDict []))) ''0A'') = Inr (PList [])"
  using missing_field_gives_empty_list
          [of "PInt 1" 1 "client_of (Inr (PDict [(''error'', PStr ''Bad account number'')]))" "''xrb_1''"
              "[(''error'', PStr ''Bad account number'')]"]
        missing_field_gives_empty_list
          [of "PInt 1" 1 "client_of (Inr (PDict []))" "''xrb_1''" "[]" "''0A''" "[]"]
  by (simp add: call_client_of)

text \<open>
  C10. When the response mapping holds a falsy value under \<^verbatim>\<open>history\<close> (respectively
  \<^verbatim>\<open>accounts\<close>), such as \<^verbatim>\<open>None\<close>, an empty list, an empty string or zero, the operation
  returns the empty list and not that value.
\<close>

theorem falsy_field_gives_empty_list:
  "(py_int count = Inr n \<longrightarrow>
    fst (call c ''account_history''
          (Some [(''account'', preprocess_account a), (''count'', Val (PStr (py_str_int n)))]))
      = Inr (PDict d) \<longrightarrow>
    map_of d ''history'' = Some v \<longrightarrow> \<not> py_truthy v \<longrightarrow>
    fst (account_history c a count) = Inr (PList []))
 \<and> (fst (call c ''account_list'' (Some [(''wallet'', preprocess_wallet w)])) = Inr (PDict d') \<longrightarrow>
    map_of d' ''accounts'' = Some v' \<longrightarrow> \<not> py_truthy v' \<longrightarrow>
    fst (account_list c w) = Inr (PList []))"
  by (auto simp add: account_list_fst account_history_fst preprocess_int_ok bind_result_def
        py_or_def)

theorem falsy_field_gives_empty_list_witness:
  "fst (account_history (client_of (Inr (PDict [(''history'', PNone)]))) ''xrb_1'' (PInt 1))
     = Inr (PList [])
 \<and> fst (account_list (client_of (Inr (PDict [(''accounts'', PStr [])]))) ''0A'') = Inr (PList [])"
  using falsy_field_gives_empty_list
          [of "PInt 1" 1 "client_of (Inr (PDict [(''history'', PNone)]))" "''xrb_1''"
              "[(''history'', PNone)]" PNone]
        falsy_field_gives_empty_list
          [of "PInt 1" 1 "client_of (Inr (PDict [(''accounts'', PStr [])]))" "''xrb_1''" "[]"
              PNone "''0A''" "[(''accounts'', PStr [])]" "PStr []"]
  by (simp add: call_client_of)

subsection \<open>\<^verbatim>\<open>account_info\<close>: the payload\<close>

lemma preprocess_strbool_truthy: "py_truthy v \<Longrightarrow> preprocess_strbool v = PStr ''true''"
  by (simp add: preprocess_strbool_def py_and_def py_or_def)


lemma account_info_posted:
  "posted (session (snd (account_info c a r w p))) =
   posted (session c) @
     [(host c, AList.update ''action'' (Val (PStr ''account_info'')) (account_info_payload a r w p))]"
  by (simp add: account_info_def split_beta Let_def call_posted)

lemma account_info_payload_eq:
  "account_info_payload a r w p =
     [(''account'', Model (Account a))]
     @ (if py_truthy r then [(''representative'', Val (PStr ''true''))] else [])
     @ (if py_truthy w then [(''weight'', Val (PStr ''true''))] else [])
     @ (if py_truthy p then [(''pending'', Val (PStr ''true''))] else [])"
  by (simp add: account_info_payload_def preprocess_account_def preprocess_strbool_truthy)

text \<open>
  C2. In the payload that \<open>account_info\<close> builds, each of \<^verbatim>\<open>representative\<close>, \<^verbatim>\<open>weight\<close>
  and \<^verbatim>\<open>pending\<close> is present exactly when its flag is truthy, and then holds the string
  \<^verbatim>\<open>true\<close>; no other key than these and \<^verbatim>\<open>account\<close> occurs; with all three flags falsy
  the payload is the \<^verbatim>\<open>account\<close> field alone. The request that goes out is this payload
  followed by the \<^verbatim>\<open>action\<close> field that \<open>call\<close> adds.
\<close>

theorem account_info_flags:
  "let payload = account_info_payload a r w p;
       sent = snd (last (posted (session (snd (account_info c a r w p)))))
   in map_of payload ''account'' = Some (Model (Account a))
    \<and> map_of payload ''representative'' = (if py_truthy r then Some (Val (PStr ''true'')) else None)
    \<and> map_of payload ''weight'' = (if py_truthy w then Some (Val (PStr ''true'')) else None)
    \<and> map_of payload ''pending'' = (if py_truthy p then Some (Val (PStr ''true'')) else None)
    \<and> set (map fst payload) \<subseteq> {''account'', ''representative'', ''weight'', ''pending''}
    \<and> (\<not> py_truthy r \<and> \<not> py_truthy w \<and> \<not> py_truthy p \<longrightarrow>
          payload = [(''account'', Model (Account a))])
    \<and> sent = payload @ [(''action'', Val (PStr ''account_info''))]"
  by (simp add: Let_def account_info_posted account_info_payload_eq)

theorem account_info_flags_witness:
  "account_info_payload ''xrb_1'' (PBool False) (PBool False) (PBool False)
     = [(''account'', Model (Account ''xrb_1''))]
 \<and> snd (last (posted (session (snd (account_info (client_of (Inr (PDict []))) ''xrb_1''
        (PBool False) (PBool True) (PBool False))))))
     = [(''account'', Model (Account ''xrb_1'')), (''weight'', Val (PStr ''true'')),
        (''action'', Val (PStr ''account_info''))]"
  using account_info_flags [of "''xrb_1''" "PBool False" "PBool False" "PBool False" "client_of (Inr (PDict []))"]
        account_info_flags [of "''xrb_1''" "PBool False" "PBool True" "PBool False" "client_of (Inr (PDict []))"]
  by (simp add: Let_def account_info_payload_eq)

subsection \<open>\<^verbatim>\<open>account_info\<close>: the response\<close>

lemma update_present_keys:
  "map_of d key = Some v \<Longrightarrow> map fst (AList.update key x d) = map fst d"
  by (auto simp add: AList.update_keys dest: map_of_SomeD intro: rev_image_eqI)






subsection \<open>\<^verbatim>\<open>version\<close>\<close>

lemma version_fst:
  "fst (version c) =
   bind_result (fst (call c ''version'' None)) (coerce_required [''rpc_version'', ''store_version''])"
  by (simp add: version_def split_beta del: coerce_required.simps)

lemma coerce_required_Cons_dict:
  "coerce_required (key # keys) (PDict d) =
     (case map_of d key of
        None \<Rightarrow> Inl KeyError
      | Some v \<Rightarrow> (case py_int v of Inl e \<Rightarrow> Inl e
                  | Inr n \<Rightarrow> coerce_required keys (PDict (AList.update key (PInt n) d))))"
  by (simp add: bind_result_def split: option.splits sum.splits)

text \<open>
  C6. When the response mapping holds numeric strings under \<^verbatim>\<open>rpc_version\<close> and
  \<^verbatim>\<open>store_version\<close>, \<open>version\<close> returns the mapping with the same keys in the same
  order, these two fields replaced by their integers and every other field unchanged.
\<close>

theorem version_coerces:
  assumes "fst (call c ''version'' None) = Inr (PDict d)"
    and "map_of d ''rpc_version'' = Some (PStr s1)" and "int_of_str s1 = Some n1"
    and "map_of d ''store_version'' = Some (PStr s2)" and "int_of_str s2 = Some n2"
  shows "\<exists>d'. fst (version c) = Inr (PDict d') \<and> map fst d' = map fst d
           \<and> map_of d' = (map_of d)(''rpc_version'' \<mapsto> PInt n1, ''store_version'' \<mapsto> PInt n2)"
proof -
  let ?d1 = "AList.update ''rpc_version'' (PInt n1) d"
  let ?d2 = "AList.update ''store_version'' (PInt n2) ?d1"
  have store1: "map_of ?d1 ''store_version'' = Some (PStr s2)"
    using assms(4) by (simp add: update_conv')
  have "coerce_required [''rpc_version'', ''store_version''] (PDict d) = Inr (PDict ?d2)"
    using assms(2,3) store1 assms(5)
    by (simp add: coerce_required_Cons_dict del: coerce_required.simps(2))
  then have "fst (version c) = Inr (PDict ?d2)"
    using assms(1) by (simp add: version_fst bind_result_def del: coerce_required.simps)
  moreover have "map fst ?d2 = map fst d"
    using update_present_keys [OF store1] update_present_keys [OF assms(2)] by simp
  moreover have "map_of ?d2 = (map_of d)(''rpc_version'' \<mapsto> PInt n1, ''store_version'' \<mapsto> PInt n2)"
    by (simp add: update_conv')
  ultimately show ?thesis by blast
qed

theorem version_coerces_witness:
  "fst (version (client_of (Inr (PDict
         [(''rpc_version'', PStr ''1''), (''store_version'', PStr ''10''), (''node_vendor'', PStr ''X'')]))))
   = Inr (PDict [(''rpc_version'', PInt 1), (''store_version'', PInt 10), (''node_vendor'', PStr ''X'')])"
proof -
  let ?d = "[(''rpc_version'', PStr ''1''), (''store_version'', PStr ''10''), (''node_vendor'', PStr ''X'')]"
  let ?c = "client_of (Inr (PDict ?d))"
  have s1: "int_of_str ''1'' = Some 1" by code_simp
  have s2: "int_of_str ''10'' = Some 10" by code_simp
  have h: "fst (call ?c ''version'' None) = Inr (PDict ?d)" by (simp add: call_client_of)
  have m1: "map_of ?d ''rpc_version'' = Some (PStr ''1'')" by simp
  have m2: "map_of ?d ''store_version'' = Some (PStr ''10'')" by simp
  from version_coerces [OF h m1 s1 m2 s2] obtain d'
    where d': "fst (version ?c) = Inr (PDict d')" "map fst d' = map fst ?d"
      "map_of d' = (map_of ?d)(''rpc_version'' \<mapsto> PInt 1, ''store_version'' \<mapsto> PInt 10)"
    by blast
  from d'(2) obtain x y z
    where shape: "d' = [(''rpc_version'', x), (''store_version'', y), (''node_vendor'', z)]"
    by (auto simp add: map_eq_Cons_conv)
  from d'(3) have "map_of d' ''rpc_version'' = Some (PInt 1)"
    "map_of d' ''store_version'' = Some (PInt 10)" "map_of d' ''node_vendor'' = Some (PStr ''X'')"
    by simp_all
  with shape have "d' = [(''rpc_version'', PInt 1), (''store_version'', PInt 10), (''node_vendor'', PStr ''X'')]"
    by simp
  with d'(1) show ?thesis by simp
qed

subsection \<open>\<^verbatim>\<open>account_balance\<close>\<close>

lemma account_balance_fst:
  "fst (account_balance c a) =
   bind_result (fst (call c ''account_balance'' (Some [(''account'', preprocess_account a)])))
     (\<lambda>resp. bind_result (py_items resp) (\<lambda>items.
        bind_result (int_values [] items) (\<lambda>d. Inr (PDict d))))"
  by (simp add: account_balance_def split_beta Let_def)

lemma update_fresh: "k \<notin> fst ` set al \<Longrightarrow> AList.update k v al = al @ [(k, v)]"
  by (induction al) auto

lemma int_values_raises:
  "int_values acc kvs = Inl e \<Longrightarrow> \<exists>kv \<in> set kvs. py_int (snd kv) = Inl e"
proof (induction kvs arbitrary: acc)
  case Nil
  then show ?case by simp
next
  case (Cons kv kvs)
  obtain k v where kv: "kv = (k, v)" by (cases kv)
  show ?case
  proof (cases "py_int v")
    case (Inl e')
    with Cons.prems kv show ?thesis by simp
  next
    case (Inr n)
    with Cons.prems kv have "int_values (AList.update k (PInt n) acc) kvs = Inl e" by simp
    from Cons.IH [OF this] show ?thesis by auto
  qed
qed

lemma int_values_returns:
  "distinct (map fst kvs) \<Longrightarrow> fst ` set acc \<inter> fst ` set kvs = {} \<Longrightarrow>
   int_values acc kvs = Inr out \<Longrightarrow>
   \<exists>r. out = acc @ r \<and>
       list_all2 (\<lambda>kv kv'. fst kv' = fst kv \<and> (\<exists>n. py_int (snd kv) = Inr n \<and> snd kv' = PInt n)) kvs r"
proof (induction kvs arbitrary: acc)
  case Nil
  then show ?case by simp
next
  case (Cons kv kvs)
  obtain k v where kv: "kv = (k, v)" by (cases kv)
  from Cons.prems(3) kv obtain n where n: "py_int v = Inr n"
    and rest: "int_values (AList.update k (PInt n) acc) kvs = Inr out"
    by (auto split: sum.splits)
  from Cons.prems(2) kv have fresh: "k \<notin> fst ` set acc" by auto
  then have upd: "AList.update k (PInt n) acc = acc @ [(k, PInt n)]" by (rule update_fresh)
  have "fst ` set (acc @ [(k, PInt n)]) \<inter> fst ` set kvs = {}"
    using Cons.prems(1,2) kv by auto
  with Cons.IH [of "acc @ [(k, PInt n)]"] Cons.prems(1) rest upd
  obtain r where r: "out = (acc @ [(k, PInt n)]) @ r"
    "list_all2 (\<lambda>kv kv'. fst kv' = fst kv \<and> (\<exists>n. py_int (snd kv) = Inr n \<and> snd kv' = PInt n)) kvs r"
    by auto
  then have "out = acc @ ((k, PInt n) # r)" by simp
  moreover have "list_all2 (\<lambda>kv kv'. fst kv' = fst kv \<and> (\<exists>n. py_int (snd kv) = Inr n \<and> snd kv' = PInt n))
                   (kv # kvs) ((k, PInt n) # r)"
    using r(2) kv n by simp
  ultimately show ?case by blast
qed

text \<open>
  C1. For any account, when the response is a mapping whose values are all strings that
  \<^verbatim>\<open>int\<close> accepts, \<open>account_balance\<close> returns a mapping with the same keys in the same
  order, and the value under each key is the integer its string denotes.
\<close>

theorem account_balance_ints:
  assumes "fst (call c ''account_balance'' (Some [(''account'', preprocess_account a)])) = Inr (PDict d)"
    and "distinct (map fst d)"
    and "\<forall>v \<in> snd ` set d. \<exists>s n. v = PStr s \<and> int_of_str s = Some n"
  shows "\<exists>r. fst (account_balance c a) = Inr (PDict r) \<and> map fst r = map fst d
           \<and> list_all2 (\<lambda>kv kv'. fst kv' = fst kv \<and>
                 (\<exists>s n. snd kv = PStr s \<and> int_of_str s = Some n \<and> snd kv' = PInt n)) d r"
proof -
  have conv: "\<exists>n. py_int (snd kv) = Inr n" if "kv \<in> set d" for kv
    using assms(3) that by force
  obtain out where out: "int_values [] d = Inr out"
  proof (cases "int_values [] d")
    case (Inl e)
    from int_values_raises [OF this] obtain kv where "kv \<in> set d" "py_int (snd kv) = Inl e"
      by blast
    with conv [of kv] show ?thesis by simp
  next
    case (Inr out)
    then show ?thesis by (rule that)
  qed
  from int_values_returns [OF assms(2) _ out]
  have rel: "list_all2 (\<lambda>kv kv'. fst kv' = fst kv \<and> (\<exists>n. py_int (snd kv) = Inr n \<and> snd kv' = PInt n)) d out"
    by simp
  have rel': "list_all2 (\<lambda>kv kv'. fst kv' = fst kv \<and>
                 (\<exists>s n. snd kv = PStr s \<and> int_of_str s = Some n \<and> snd kv' = PInt n)) d out"
    using rel
  proof (rule list.rel_mono_strong)
    fix kv kv'
    assume "kv \<in> set d"
      and "fst kv' = fst kv \<and> (\<exists>n. py_int (snd kv) = Inr n \<and> snd kv' = PInt n)"
    with assms(3) show "fst kv' = fst kv \<and>
                 (\<exists>s n. snd kv = PStr s \<and> int_of_str s = Some n \<and> snd kv' = PInt n)"
      by force
  qed
  have keys: "map fst out = map fst d"
    using rel by (induction d out rule: list_all2_induct) auto
  have "fst (account_balance c a) = Inr (PDict out)"
    using assms(1) out by (simp add: account_balance_fst bind_result_def)
  with keys rel' show ?thesis by blast
qed

theorem account_balance_ints_witness:
  "fst (account_balance
         (client_of (Inr (PDict [(''balance'', PStr ''10000''), (''pending'', PStr ''10000'')])))
         ''xrb_3e3j5'')
   = Inr (PDict [(''balance'', PInt 10000), (''pending'', PInt 10000)])"
proof -
  let ?d = "[(''balance'', PStr ''10000''), (''pending'', PStr ''10000'')]"
  let ?c = "client_of (Inr (PDict ?d))"
  have s: "int_of_str ''10000'' = Some 10000" by code_simp
  have h1: "fst (call ?c ''account_balance'' (Some [(''account'', preprocess_account ''xrb_3e3j5'')]))
              = Inr (PDict ?d)"
    by (simp add: call_client_of)
  have h2: "distinct (map fst ?d)" by simp
  have h3: "\<forall>v \<in> snd ` set ?d. \<exists>s n. v = PStr s \<and> int_of_str s = Some n" by (simp add: s)
  from account_balance_ints [OF h1 h2 h3] obtain r
    where r: "fst (account_balance ?c ''xrb_3e3j5'') = Inr (PDict r)"
      and rel: "list_all2 (\<lambda>kv kv'. fst kv' = fst kv \<and>
                 (\<exists>s n. snd kv = PStr s \<and> int_of_str s = Some n \<and> snd kv' = PInt n)) ?d r"
    by blast
  from rel have "r = [(''balance'', PInt 10000), (''pending'', PInt 10000)]"
    by (auto simp add: list_all2_Cons1 s prod_eq_iff)
  with r show ?thesis by simp
qed

subsection \<open>\<^verbatim>\<open>account_history\<close>\<close>

lemma account_history_posted:
  "preprocess_int count = Inr count' \<Longrightarrow>
   posted (session (snd (account_history c a count))) =
   posted (session c) @
     [(host c, [(''account'', preprocess_account a), (''count'', Val count'),
                (''action'', Val (PStr ''account_history''))])]"
  by (simp add: account_history_def split_beta Let_def call_posted)

lemma int_amounts_Cons_dict:
  "map_of ed ''amount'' = Some v \<Longrightarrow> py_int v = Inr m \<Longrightarrow>
   int_amounts (PDict ed # rest) =
     (case int_amounts rest of Inl e \<Rightarrow> Inl e
      | Inr rest' \<Rightarrow> Inr (PDict (AList.update ''amount'' (PInt m) ed) # rest'))"
  by (simp add: bind_result_def)

lemma int_amounts_ok:
  "\<forall>e \<in> set es. \<exists>ed v m. e = PDict ed \<and> map_of ed ''amount'' = Some v \<and> py_int v = Inr m \<Longrightarrow>
   \<exists>es'. int_amounts es = Inr es' \<and>
     list_all2 (\<lambda>e e'. \<exists>ed v m ed'. e = PDict ed \<and> e' = PDict ed'
                  \<and> map_of ed ''amount'' = Some v \<and> py_int v = Inr m
                  \<and> map fst ed' = map fst ed
                  \<and> map_of ed' = (map_of ed)(''amount'' \<mapsto> PInt m)) es es'"
  (is "_ \<Longrightarrow> \<exists>es'. _ \<and> list_all2 ?R es es'")
proof (induction es)
  case Nil
  show ?case by simp
next
  case (Cons e es)
  from Cons.prems obtain ed v m where e: "e = PDict ed" "map_of ed ''amount'' = Some v"
    "py_int v = Inr m" by (meson list.set_intros(1))
  from Cons.prems have "\<forall>e \<in> set es. \<exists>ed v m. e = PDict ed \<and> map_of ed ''amount'' = Some v
                          \<and> py_int v = Inr m"
    by (meson list.set_intros(2))
  from Cons.IH [OF this] obtain es' where es': "int_amounts es = Inr es'" "list_all2 ?R es es'"
    by blast
  let ?ed' = "AList.update ''amount'' (PInt m) ed"
  have run: "int_amounts (e # es) = Inr (PDict ?ed' # es')"
    using e es'(1) by (simp only: int_amounts_Cons_dict) simp
  have "map fst ?ed' = map fst ed" using e(2) by (rule update_present_keys)
  moreover have "map_of ?ed' = (map_of ed)(''amount'' \<mapsto> PInt m)" by (simp add: update_conv')
  ultimately have "?R e (PDict ?ed')" using e by blast
  then have "list_all2 ?R (e # es) (PDict ?ed' # es')" using es'(2) by (rule list.rel_intros(2))
  with run show ?case by blast
qed

lemma py_str_int_one: "py_str_int 1 = ''1''"
  by code_simp

lemma account_history_example: "fst (account_history (client_of (Inr (PDict [(''history'',
          PList [PDict [(''type'', PStr ''receive''),
                        (''amount'', PStr ''100000000000000000000000000000000'')]])])))
       ''xrb_3e3j5'' (PInt 1))
     = Inr (PList [PDict [(''type'', PStr ''receive''),
                        (''amount'', PInt 100000000000000000000000000000000)]])"
  by (simp add: account_history_fst preprocess_int_ok call_client_of bind_result_def py_or_def
        int_of_str_eval)

text \<open>
  C8. For a count that \<^verbatim>\<open>int\<close> accepts, with value \<open>n\<close>, the request that goes out holds
  under \<^verbatim>\<open>count\<close> the decimal text of \<open>n\<close>, a string that \<^verbatim>\<open>int\<close> reads back as \<open>n\<close>. When
  the response mapping has no \<^verbatim>\<open>history\<close>, the result is the empty list. When \<^verbatim>\<open>history\<close>
  is a list of mappings that each hold under \<^verbatim>\<open>amount\<close> a value \<^verbatim>\<open>int\<close> accepts, the result
  is the list of the same length whose entries have the same keys and values, but for
  \<^verbatim>\<open>amount\<close>, which holds the integer.
\<close>

theorem account_history_count_and_amounts:
  assumes "py_int count = Inr n"
  shows "posted (session (snd (account_history c a count))) =
           posted (session c) @
             [(host c, [(''account'', Model (Account a)), (''count'', Val (PStr (py_str_int n))),
                        (''action'', Val (PStr ''account_history''))])]
       \<and> int_of_str (py_str_int n) = Some n
       \<and> (\<forall>d. fst (call c ''account_history''
                  (Some [(''account'', preprocess_account a), (''count'', Val (PStr (py_str_int n)))]))
                = Inr (PDict d) \<longrightarrow>
            (map_of d ''history'' = None \<longrightarrow> fst (account_history c a count) = Inr (PList []))
          \<and> (\<forall>es. map_of d ''history'' = Some (PList es) \<longrightarrow>
                (\<forall>e \<in> set es. \<exists>ed v m. e = PDict ed \<and> map_of ed ''amount'' = Some v
                                   \<and> py_int v = Inr m) \<longrightarrow>
                (\<exists>es'. fst (account_history c a count) = Inr (PList es') \<and>
                   list_all2 (\<lambda>e e'. \<exists>ed v m ed'. e = PDict ed \<and> e' = PDict ed'
                      \<and> map_of ed ''amount'' = Some v \<and> py_int v = Inr m
                      \<and> map fst ed' = map fst ed
                      \<and> map_of ed' = (map_of ed)(''amount'' \<mapsto> PInt m)) es es')))"
proof (intro conjI allI impI)
  note pre = preprocess_int_ok [OF assms]
  show "posted (session (snd (account_history c a count))) =
           posted (session c) @
             [(host c, [(''account'', Model (Account a)), (''count'', Val (PStr (py_str_int n))),
                        (''action'', Val (PStr ''account_history''))])]"
    by (simp add: account_history_posted [OF pre] preprocess_account_def)
  show "int_of_str (py_str_int n) = Some n" by (rule int_of_str_py_str_int)
next
  fix d
  assume resp: "fst (call c ''account_history''
                  (Some [(''account'', preprocess_account a), (''count'', Val (PStr (py_str_int n)))]))
                = Inr (PDict d)"
    and "map_of d ''history'' = None"
  then show "fst (account_history c a count) = Inr (PList [])"
    by (simp add: account_history_fst [OF preprocess_int_ok [OF assms]] bind_result_def py_or_def)
next
  fix d es
  assume resp: "fst (call c ''account_history''
                  (Some [(''account'', preprocess_account a), (''count'', Val (PStr (py_str_int n)))]))
                = Inr (PDict d)"
    and hist: "map_of d ''history'' = Some (PList es)"
    and ok: "\<forall>e \<in> set es. \<exists>ed v m. e = PDict ed \<and> map_of ed ''amount'' = Some v \<and> py_int v = Inr m"
  from int_amounts_ok [OF ok] obtain es' where es': "int_amounts es = Inr es'"
    "list_all2 (\<lambda>e e'. \<exists>ed v m ed'. e = PDict ed \<and> e' = PDict ed'
                  \<and> map_of ed ''amount'' = Some v \<and> py_int v = Inr m
                  \<and> map fst ed' = map fst ed
                  \<and> map_of ed' = (map_of ed)(''amount'' \<mapsto> PInt m)) es es'"
    by blast
  have "fst (account_history c a count) = Inr (PList es')"
  proof (cases "es = []")
    case True
    with es'(1) have "es' = []" by simp
    with True resp hist show ?thesis
      by (simp add: account_history_fst [OF preprocess_int_ok [OF assms]] bind_result_def py_or_def)
  next
    case False
    with resp hist es'(1) show ?thesis
      by (simp add: account_history_fst [OF preprocess_int_ok [OF assms]] bind_result_def py_or_def)
  qed
  with es'(2) show "\<exists>es'. fst (account_history c a count) = Inr (PList es') \<and>
                   list_all2 (\<lambda>e e'. \<exists>ed v m ed'. e = PDict ed \<and> e' = PDict ed'
                      \<and> map_of ed ''amount'' = Some v \<and> py_int v = Inr m
                      \<and> map fst ed' = map fst ed
                      \<and> map_of ed' = (map_of ed)(''amount'' \<mapsto> PInt m)) es es'"
    by blast
qed

theorem account_history_count_and_amounts_witness:
  "posted (session (snd (account_history
      (client_of (Inr (PDict [(''history'',
          PList [PDict [(''type'', PStr ''receive''),
                        (''amount'', PStr ''100000000000000000000000000000000'')]])])))
      ''xrb_3e3j5'' (PInt 1))))
   = [(''http://localhost:7076'',
       [(''account'', Model (Account ''xrb_3e3j5'')), (''count'', Val (PStr ''1'')),
        (''action'', Val (PStr ''account_history''))])]
 \<and> fst (account_history
      (client_of (Inr (PDict [(''history'',
          PList [PDict [(''type'', PStr ''receive''),
                        (''amount'', PStr ''100000000000000000000000000000000'')]])])))
      ''xrb_3e3j5'' (PInt 1))
   = Inr (PList [PDict [(''type'', PStr ''receive''),
                        (''amount'', PInt 100000000000000000000000000000000)]])"
proof -
  let ?c = "client_of (Inr (PDict [(''history'',
          PList [PDict [(''type'', PStr ''receive''),
                        (''amount'', PStr ''100000000000000000000000000000000'')]])]))"
  have h: "py_int (PInt 1) = Inr 1" by simp
  from account_history_count_and_amounts [OF h, of ?c "''xrb_3e3j5''"]
  have sent: "posted (session (snd (account_history ?c ''xrb_3e3j5'' (PInt 1)))) =
           posted (session ?c) @
             [(host ?c, [(''account'', Model (Account ''xrb_3e3j5'')), (''count'', Val (PStr (py_str_int 1))),
                        (''action'', Val (PStr ''account_history''))])]"
    by (rule conjunct1)
  with account_history_example show ?thesis
    by (simp add: py_str_int_one client_of_simps)
qed

subsection \<open>Error indicators in a response\<close>













end
